theory Spec2Isabelle
  imports Complex_Main
begin

section \<open>JavaScript values\<close>

text \<open>
  The i18n manager (class \<open>I18n\<close> of \<open>src/config.js\<close>) stores whatever
  \<open>response.json()\<close> hands back, so its data are JavaScript values: the JSON values,
  \<open>undefined\<close>, and the built-in objects that a property lookup can reach through the
  prototype chain of a parsed object or array (\<open>Object.prototype\<close>,
  \<open>Array.prototype\<close> and their native functions, which are identified by name).

  Strings are \<open>string\<close>: the UTF-8 bytes of the text. The code only compares strings
  for equality and splits them at the ASCII characters \<open>.\<close> and \<open>-\<close>, and both
  operations give the same result on the UTF-8 bytes as on JavaScript's UTF-16 units.
  An object is the association list of its own properties, read with \<open>map_of\<close>.
\<close>

datatype builtin = ObjectPrototype | ArrayPrototype

datatype jsval =
    Undefined
  | Null
  | Bool bool
  | Num real
  | Str string
  | Arr "jsval list"
  | Obj "(string \<times> jsval) list"
  | Proto builtin
  | NativeFunction string

datatype error =
    NetworkError
  | LanguageFileNotFound string
  | SyntaxError
  | TypeError
  | SecurityError
  | QuotaExceededError

text \<open>\<open>ToBoolean\<close>, as used by \<open>||\<close>, \<open>&&\<close>, \<open>!\<close> and \<open>?:\<close>.\<close>

fun truthy :: "jsval \<Rightarrow> bool" where
  "truthy Undefined = False"
| "truthy Null = False"
| "truthy (Bool b) = b"
| "truthy (Num r) = (r \<noteq> 0)"
| "truthy (Str s) = (s \<noteq> [])"
| "truthy (Arr xs) = True"
| "truthy (Obj kvs) = True"
| "truthy (Proto p) = True"
| "truthy (NativeFunction f) = True"

fun typeof :: "jsval \<Rightarrow> string" where
  "typeof Undefined = ''undefined''"
| "typeof Null = ''object''"
| "typeof (Bool b) = ''boolean''"
| "typeof (Num r) = ''number''"
| "typeof (Str s) = ''string''"
| "typeof (Arr xs) = ''object''"
| "typeof (Obj kvs) = ''object''"
| "typeof (Proto p) = ''object''"
| "typeof (NativeFunction f) = ''function''"

subsection \<open>Property lookup along the prototype chain\<close>

text \<open>
  \<open>k in value\<close> is the abstract operation HasProperty and \<open>value[k]\<close> is Get: both
  look at the own properties of the object first and then walk its prototype chain.
  An object made by \<open>JSON.parse\<close> inherits from \<open>Object.prototype\<close>, an array from
  \<open>Array.prototype\<close> and then \<open>Object.prototype\<close>. The tables list the string-keyed
  properties of the two prototypes (ECMAScript 2023, with the legacy accessors of
  Annex B that every browser defines).
\<close>

definition object_prototype_methods :: "string list" where
  "object_prototype_methods =
     [''hasOwnProperty'', ''isPrototypeOf'', ''propertyIsEnumerable'', ''toLocaleString'',
      ''toString'', ''valueOf'', ''__defineGetter__'', ''__defineSetter__'',
      ''__lookupGetter__'', ''__lookupSetter__'']"

definition array_prototype_methods :: "string list" where
  "array_prototype_methods =
     [''at'', ''concat'', ''copyWithin'', ''entries'', ''every'', ''fill'', ''filter'', ''find'',
      ''findIndex'', ''findLast'', ''findLastIndex'', ''flat'', ''flatMap'', ''forEach'',
      ''includes'', ''indexOf'', ''join'', ''keys'', ''lastIndexOf'', ''map'', ''pop'', ''push'',
      ''reduce'', ''reduceRight'', ''reverse'', ''shift'', ''slice'', ''some'', ''sort'',
      ''splice'', ''toLocaleString'', ''toReversed'', ''toSorted'', ''toSpliced'', ''toString'',
      ''unshift'', ''values'', ''with'']"

text \<open>The internal slot \<open>[[Prototype]]\<close>; primitives have none.\<close>

fun prototype_of :: "jsval \<Rightarrow> jsval" where
  "prototype_of (Obj kvs) = Proto ObjectPrototype"
| "prototype_of (Arr xs) = Proto ArrayPrototype"
| "prototype_of (Proto ArrayPrototype) = Proto ObjectPrototype"
| "prototype_of (Proto ObjectPrototype) = Null"
| "prototype_of v = Undefined"

text \<open>
  What \<open>Object.prototype\<close> contributes to a lookup started at \<open>receiver\<close>:
  \<open>__proto__\<close> is an accessor whose getter answers the receiver's prototype.
\<close>

definition object_prototype_member :: "jsval \<Rightarrow> string \<Rightarrow> jsval option" where
  "object_prototype_member receiver k =
     (if k = ''__proto__'' then Some (prototype_of receiver)
      else if k = ''constructor'' then Some (NativeFunction ''Object'')
      else if k \<in> set object_prototype_methods
        then Some (NativeFunction (''Object.prototype.'' @ k))
      else None)"

definition array_prototype_member :: "jsval \<Rightarrow> string \<Rightarrow> jsval option" where
  "array_prototype_member receiver k =
     (if k = ''length'' then Some (Num 0)
      else if k = ''constructor'' then Some (NativeFunction ''Array'')
      else if k \<in> set array_prototype_methods
        then Some (NativeFunction (''Array.prototype.'' @ k))
      else object_prototype_member receiver k)"

text \<open>
  An array index is the canonical decimal numeral of a position: \<open>''0''\<close>, \<open>''7''\<close>,
  \<open>''10''\<close>, but neither \<open>''07''\<close> nor the empty string.
\<close>

definition digit_of :: "char \<Rightarrow> nat option" where
  "digit_of c =
     (let n = (of_char c :: nat) in if 48 \<le> n \<and> n \<le> 57 then Some (n - 48) else None)"

fun decimal_value :: "nat \<Rightarrow> string \<Rightarrow> nat option" where
  "decimal_value acc [] = Some acc"
| "decimal_value acc (c # cs) =
     (case digit_of c of None \<Rightarrow> None | Some d \<Rightarrow> decimal_value (10 * acc + d) cs)"

definition array_index :: "string \<Rightarrow> nat option" where
  "array_index k =
     (case k of
        [] \<Rightarrow> None
      | c # cs \<Rightarrow> if c = CHR ''0'' \<and> cs \<noteq> [] then None else decimal_value 0 k)"

definition array_own_property :: "jsval list \<Rightarrow> string \<Rightarrow> jsval option" where
  "array_own_property xs k =
     (if k = ''length'' then Some (Num (real (length xs)))
      else case array_index k of
             None \<Rightarrow> None
           | Some i \<Rightarrow> if i < length xs then Some (xs ! i) else None)"

text \<open>
  \<open>lookup_property v k\<close> is \<open>Some x\<close> when \<open>k in v\<close> holds, and then \<open>v[k]\<close> is
  \<open>x\<close>. On a primitive \<open>in\<close> raises a TypeError, and a function has
  \<open>typeof\<close> \<open>''function''\<close>: method \<open>t\<close> guards both away before it looks anything
  up, so the last equation is never consulted by it.
\<close>

fun lookup_property :: "jsval \<Rightarrow> string \<Rightarrow> jsval option" where
  "lookup_property (Obj kvs) k =
     (case map_of kvs k of
        Some x \<Rightarrow> Some x
      | None \<Rightarrow> object_prototype_member (Obj kvs) k)"
| "lookup_property (Arr xs) k =
     (case array_own_property xs k of
        Some x \<Rightarrow> Some x
      | None \<Rightarrow> array_prototype_member (Arr xs) k)"
| "lookup_property (Proto ObjectPrototype) k = object_prototype_member (Proto ObjectPrototype) k"
| "lookup_property (Proto ArrayPrototype) k = array_prototype_member (Proto ArrayPrototype) k"
| "lookup_property v k = None"

definition has_property :: "jsval \<Rightarrow> string \<Rightarrow> bool" where
  "has_property v k = (lookup_property v k \<noteq> None)"

definition get_property :: "jsval \<Rightarrow> string \<Rightarrow> jsval" where
  "get_property v k = (case lookup_property v k of Some x \<Rightarrow> x | None \<Rightarrow> Undefined)"

text \<open>
  The member reads the class writes with a fixed name: \<open>.meta\<close>, \<open>.lang\<close>,
  \<open>.dir\<close>, \<open>.code\<close>, \<open>.languages\<close>, \<open>.defaultLang\<close>. Reading a property of
  \<open>null\<close> or \<open>undefined\<close> raises a TypeError. None of these names is defined by the
  prototype of a boolean, number, string or function, so on those the read gives
  \<open>undefined\<close>.
\<close>

fun get_member :: "jsval \<Rightarrow> string \<Rightarrow> error + jsval" where
  "get_member Undefined k = Inl TypeError"
| "get_member Null k = Inl TypeError"
| "get_member (Obj kvs) k = Inr (get_property (Obj kvs) k)"
| "get_member (Arr xs) k = Inr (get_property (Arr xs) k)"
| "get_member (Proto p) k = Inr (get_property (Proto p) k)"
| "get_member v k = Inr Undefined"

text \<open>\<open>String.prototype.split\<close> with a separator of one character.\<close>

fun split_on :: "char \<Rightarrow> string \<Rightarrow> string list" where
  "split_on sep [] = [[]]"
| "split_on sep (c # cs) =
     (if c = sep then [] # split_on sep cs
      else case split_on sep cs of
             [] \<Rightarrow> [[c]]
           | w # ws \<Rightarrow> (c # w) # ws)"

section \<open>The browser around the manager\<close>

text \<open>
  \<open>fetch\<close> either rejects (no network) or resolves with a response: its \<open>ok\<close>
  flag and what \<open>response.json()\<close> makes of the body, \<open>None\<close> when the body is not
  JSON. A network answers the \<open>n\<close>-th bundle request of the session for a language
  code; the cache-busting query \<open>?v=Date.now()\<close> is part of the request, not of the
  code, and is not modelled.
\<close>

datatype 'a fetched = Rejected | Response bool "'a option"

type_synonym network = "nat \<Rightarrow> string \<Rightarrow> jsval fetched"

text \<open>
  The manifest \<open>./locales/languages.json\<close> as \<open>loadLanguages\<close> reads it: the body
  \<open>null\<close>, or a value with its \<open>languages\<close> property (\<open>Undefined\<close> when absent)
  and its \<open>defaultLang\<close> property, a string when present (section 6 of the
  specification gives the manifest format; a value without the property, or with
  \<open>null\<close> there, is \<open>None\<close>).
\<close>

datatype manifest = ManifestNull | Manifest jsval "string option"

text \<open>
  \<open>window.localStorage\<close>: reading the property raises a SecurityError when storage is
  disabled for the origin, and \<open>setItem\<close> raises a QuotaExceededError when nothing
  more can be stored.
\<close>

record storage =
  items :: "string \<Rightarrow> string option"
  access_denied :: bool
  quota_exceeded :: bool

definition localStorage_getItem :: "storage \<Rightarrow> string \<Rightarrow> error + string option" where
  "localStorage_getItem st k = (if access_denied st then Inl SecurityError else Inr (items st k))"

definition localStorage_setItem :: "storage \<Rightarrow> string \<Rightarrow> string \<Rightarrow> error + storage" where
  "localStorage_setItem st k v =
     (if access_denied st then Inl SecurityError
      else if quota_exceeded st then Inl QuotaExceededError
      else Inr (st\<lparr>items := (items st)(k \<mapsto> v)\<rparr>))"

text \<open>What the page tells the manager: \<open>navigator\<close> and the switcher's markup.\<close>

record env =
  navigator_language :: "string option"
  navigator_userLanguage :: "string option"
  lang_dropdown_present :: bool

section \<open>The state of the manager\<close>

text \<open>
  The five fields of the \<open>I18n\<close> instance, followed by what its methods write
  outside it: the preference store, the \<open>lang\<close> and \<open>dir\<close> attributes of the root
  element (the value last assigned, \<open>Undefined\<close> before the first assignment), the
  details of the \<open>languageChanged\<close> events dispatched so far, and the language codes
  of the bundle requests issued so far. Calls run one after the other: a second call
  arriving while the first awaits the network is outside the model.

  The field \<open>translations\<close> carries a prime, and the constructor is \<open>new_I18n\<close>,
  because \<open>translations\<close> and \<open>constructor\<close> are reserved words here.
\<close>

record state =
  currentLang :: "string option"
  translations' :: jsval
  languages :: jsval
  defaultLang :: string
  storageKey :: string
  localStorage :: storage
  html_lang :: jsval
  html_dir :: jsval
  events :: "(string option \<times> jsval) list"
  requests :: "string list"

definition new_I18n :: "storage \<Rightarrow> state" where
  "new_I18n st =
     \<lparr>currentLang = None, translations' = Obj [], languages = Arr [], defaultLang = ''ar'',
      storageKey = ''preferred_language'', localStorage = st, html_lang = Undefined,
      html_dir = Undefined, events = [], requests = []\<rparr>"

text \<open>A language code as the JavaScript value it is: \<open>null\<close> or a string.\<close>

fun code_value :: "string option \<Rightarrow> jsval" where
  "code_value None = Null"
| "code_value (Some c) = Str c"

section \<open>Language Registry: \<open>loadLanguages\<close>\<close>

text \<open>The Arabic display name, in UTF-8.\<close>

definition arabic_name :: string where
  "arabic_name =
     [CHR 0xD8, CHR 0xA7, CHR 0xD9, CHR 0x84, CHR 0xD8, CHR 0xB9, CHR 0xD8, CHR 0xB1,
      CHR 0xD8, CHR 0xA8, CHR 0xD9, CHR 0x8A, CHR 0xD8, CHR 0xA9]"

definition fallback_languages :: jsval where
  "fallback_languages =
     Arr [Obj [(''code'', Str ''ar''), (''name'', Str arabic_name),
               (''flag'', Str ''https://flagcdn.com/w80/eg.png''), (''dir'', Str ''rtl'')],
          Obj [(''code'', Str ''en''), (''name'', Str ''English''),
               (''flag'', Str ''https://flagcdn.com/w80/gb.png''), (''dir'', Str ''ltr'')]]"

text \<open>
  The \<open>try\<close> block of \<open>loadLanguages\<close>. The response's \<open>ok\<close> flag is not looked
  at. \<open>data.languages\<close> raises a TypeError when the body is \<open>null\<close>; every raise
  happens before the first assignment.
\<close>

definition loadLanguages_try :: "manifest fetched \<Rightarrow> state \<Rightarrow> error option \<times> state" where
  "loadLanguages_try response s =
     (case response of
        Rejected \<Rightarrow> (Some NetworkError, s)
      | Response ok None \<Rightarrow> (Some SyntaxError, s)
      | Response ok (Some ManifestNull) \<Rightarrow> (Some TypeError, s)
      | Response ok (Some (Manifest ls d)) \<Rightarrow>
          (None, s\<lparr>languages := ls,
                    defaultLang := (case d of
                                      None \<Rightarrow> ''ar''
                                    | Some c \<Rightarrow> if c \<noteq> [] then c else ''ar'')\<rparr>))"

definition loadLanguages :: "manifest fetched \<Rightarrow> state \<Rightarrow> error option \<times> state" where
  "loadLanguages response s =
     (case loadLanguages_try response s of
        (None, s') \<Rightarrow> (None, s')
      | (Some e, s') \<Rightarrow> (None, s'\<lparr>languages := fallback_languages\<rparr>))"

section \<open>Preference Store: \<open>getSavedLanguage\<close>, \<open>saveLanguage\<close>\<close>

definition getSavedLanguage :: "state \<Rightarrow> error + string option" where
  "getSavedLanguage s =
     (case localStorage_getItem (localStorage s) (storageKey s) of
        Inr v \<Rightarrow> Inr v
      | Inl e \<Rightarrow> Inr None)"

definition saveLanguage :: "string \<Rightarrow> state \<Rightarrow> error option \<times> state" where
  "saveLanguage langCode s =
     (case localStorage_setItem (localStorage s) (storageKey s) langCode of
        Inr st \<Rightarrow> (None, s\<lparr>localStorage := st\<rparr>)
      | Inl e \<Rightarrow> (None, s))"

section \<open>Lookup: \<open>t\<close> and \<open>get\<close>\<close>

text \<open>
  The loop of \<open>t\<close> over the segments of the key: \<open>None\<close> is the early
  \<open>return key\<close>, \<open>Some v\<close> the value left when the segments are used up.
\<close>

fun t_walk :: "jsval \<Rightarrow> string list \<Rightarrow> jsval option" where
  "t_walk v [] = Some v"
| "t_walk v (k # ks) =
     (if truthy v \<and> typeof v = ''object'' \<and> has_property v k
      then t_walk (get_property v k) ks
      else None)"

definition t :: "state \<Rightarrow> string \<Rightarrow> jsval" where
  "t s key =
     (case t_walk (translations' s) (split_on CHR ''.'' key) of
        Some v \<Rightarrow> v
      | None \<Rightarrow> Str key)"

definition get :: "state \<Rightarrow> string \<Rightarrow> jsval" where
  "get s key = t s key"

section \<open>Views: \<open>getDirection\<close>, \<open>isRTL\<close>, \<open>getCurrentLang\<close>, \<open>getLanguages\<close>\<close>

text \<open>
  \<open>this.translations.meta?.dir || 'ltr'\<close>: the optional chaining protects the read of
  \<open>dir\<close>, not the read of \<open>meta\<close>.
\<close>

definition getDirection :: "state \<Rightarrow> error + jsval" where
  "getDirection s =
     (case get_member (translations' s) ''meta'' of
        Inl e \<Rightarrow> Inl e
      | Inr meta \<Rightarrow>
          (if meta = Undefined \<or> meta = Null then Inr (Str ''ltr'')
           else case get_member meta ''dir'' of
                  Inl e \<Rightarrow> Inl e
                | Inr d \<Rightarrow> Inr (if truthy d then d else Str ''ltr'')))"

definition isRTL :: "state \<Rightarrow> error + bool" where
  "isRTL s = (case getDirection s of Inl e \<Rightarrow> Inl e | Inr d \<Rightarrow> Inr (d = Str ''rtl''))"

definition getCurrentLang :: "state \<Rightarrow> string option" where
  "getCurrentLang s = currentLang s"

definition getLanguages :: "state \<Rightarrow> jsval" where
  "getLanguages s = languages s"

section \<open>Translation Manager: \<open>setLanguage\<close> and \<open>applyLanguage\<close>\<close>

text \<open>
  \<open>this.languages.find(l => l.code === target)\<close>. The callback reads \<open>l.code\<close>
  of each element up to the first match, which raises a TypeError on a \<open>null\<close>
  element; a registry that is not an array has no callable \<open>find\<close>. The target is a
  string or \<open>null\<close>, for which \<open>===\<close> is equality of values.
\<close>

fun find_code :: "jsval list \<Rightarrow> jsval \<Rightarrow> error + jsval" where
  "find_code [] target = Inr Undefined"
| "find_code (l # ls) target =
     (case get_member l ''code'' of
        Inl e \<Rightarrow> Inl e
      | Inr c \<Rightarrow> if c = target then Inr l else find_code ls target)"

fun languages_find :: "jsval \<Rightarrow> jsval \<Rightarrow> error + jsval" where
  "languages_find (Arr ls) target = find_code ls target"
| "languages_find v target = Inl TypeError"

text \<open>
  \<open>updateLanguageSwitcher\<close> looks the current language up in the registry and copies
  its flag into the page; only its raising matters to the manager's state.
\<close>

definition updateLanguageSwitcher :: "state \<Rightarrow> error option \<times> state" where
  "updateLanguageSwitcher s =
     (case languages_find (languages s) (code_value (currentLang s)) of
        Inl e \<Rightarrow> (Some e, s)
      | Inr currentLangData \<Rightarrow> (None, s))"

text \<open>
  \<open>applyLanguage\<close>. Between the two attribute writes and the switcher update it calls
  \<open>translatePage\<close>, which writes the text of the marked elements from \<open>t\<close> and
  does not touch the state kept here. \<open>dispatchEvent\<close> does not pass a listener's
  exception on to its caller.

  Not modelled: a write of a value that is not a string into the page (the two
  attributes, the text of a marked element, the flag of the switcher) converts it to a
  string, and the conversion raises a TypeError for an object that carries a
  \<open>toString\<close> entry of its own. All these writes come before the event is dispatched
  and before the preference is saved.
\<close>

definition applyLanguage :: "state \<Rightarrow> error option \<times> state" where
  "applyLanguage s =
     (case get_member (translations' s) ''meta'' of
        Inl e \<Rightarrow> (Some e, s)
      | Inr meta \<Rightarrow>
          (case get_member meta ''lang'' of
             Inl e \<Rightarrow> (Some e, s)
           | Inr l \<Rightarrow>
               (case get_member meta ''dir'' of
                  Inl e \<Rightarrow> (Some e, s\<lparr>html_lang := l\<rparr>)
                | Inr d \<Rightarrow>
                    (case updateLanguageSwitcher (s\<lparr>html_lang := l, html_dir := d\<rparr>) of
                       (Some e, s') \<Rightarrow> (Some e, s')
                     | (None, s') \<Rightarrow>
                         (None, s'\<lparr>events := events s' @ [(currentLang s', d)]\<rparr>)))))"

text \<open>
  The \<open>try\<close> block of \<open>setLanguage\<close>: the request, the \<open>ok\<close> check, the parse,
  the two assignments, \<open>applyLanguage\<close>, \<open>saveLanguage\<close>. The state comes back in
  both cases, since a raise after the assignments leaves them in place.
\<close>

definition setLanguage_try :: "network \<Rightarrow> string \<Rightarrow> state \<Rightarrow> error option \<times> state" where
  "setLanguage_try net langCode s =
     (let s1 = s\<lparr>requests := requests s @ [langCode]\<rparr> in
      case net (length (requests s)) langCode of
        Rejected \<Rightarrow> (Some NetworkError, s1)
      | Response ok body \<Rightarrow>
          if \<not> ok then (Some (LanguageFileNotFound langCode), s1)
          else (case body of
                  None \<Rightarrow> (Some SyntaxError, s1)
                | Some bundle \<Rightarrow>
                    (case applyLanguage (s1\<lparr>translations' := bundle, currentLang := Some langCode\<rparr>) of
                       (Some e, s2) \<Rightarrow> (Some e, s2)
                     | (None, s2) \<Rightarrow> saveLanguage langCode s2)))"

lemma applyLanguage_defaultLang: "applyLanguage s = (r, s') \<Longrightarrow> defaultLang s' = defaultLang s"
  by (auto simp: applyLanguage_def updateLanguageSwitcher_def split: sum.splits option.splits prod.splits)

lemma saveLanguage_defaultLang: "saveLanguage c s = (r, s') \<Longrightarrow> defaultLang s' = defaultLang s"
  by (auto simp: saveLanguage_def split: sum.splits)

lemma setLanguage_try_defaultLang:
  "setLanguage_try net c s = (r, s') \<Longrightarrow> defaultLang s' = defaultLang s"
  by (auto simp: setLanguage_try_def Let_def split: fetched.splits option.splits prod.splits if_splits
      dest!: applyLanguage_defaultLang saveLanguage_defaultLang)

function setLanguage :: "network \<Rightarrow> string \<Rightarrow> state \<Rightarrow> bool \<times> state" where
  "setLanguage net langCode s =
     (case setLanguage_try net langCode s of
        (None, s') \<Rightarrow> (True, s')
      | (Some e, s') \<Rightarrow>
          if langCode \<noteq> defaultLang s' then setLanguage net (defaultLang s') s'
          else (False, s'))"
  by pat_completeness auto
termination
  by (relation "measure (\<lambda>(net, langCode, s). if langCode = defaultLang s then 0 else 1)")
    (auto dest: setLanguage_try_defaultLang [OF sym])

section \<open>Start-up: \<open>getBrowserLanguage\<close>, \<open>setupLanguageSwitcher\<close>, \<open>init\<close>\<close>

text \<open>
  \<open>navigator.language || navigator.userLanguage\<close>, then the piece before the first
  \<open>-\<close>, accepted when \<open>find\<close> returns a registry entry for it. \<open>split\<close> never
  returns an empty array, so the first case of the split is not reached.
\<close>

definition getBrowserLanguage :: "env \<Rightarrow> state \<Rightarrow> error + string option" where
  "getBrowserLanguage env s =
     (let browserLang = (if truthy (code_value (navigator_language env))
                         then navigator_language env else navigator_userLanguage env) in
      if \<not> truthy (code_value browserLang) then Inr None
      else case browserLang of
             None \<Rightarrow> Inr None
           | Some b \<Rightarrow>
               (case split_on CHR ''-'' b of
                  [] \<Rightarrow> Inl TypeError
                | langCode # rest \<Rightarrow>
                    (case languages_find (languages s) (Str langCode) of
                       Inl e \<Rightarrow> Inl e
                     | Inr supported \<Rightarrow> Inr (if truthy supported then Some langCode else None))))"

text \<open>
  \<open>setupLanguageSwitcher\<close> returns at once when the page has no dropdown; otherwise
  \<open>this.languages.forEach\<close> builds one option per entry and reads \<open>lang.code\<close>,
  \<open>lang.flag\<close> and \<open>lang.name\<close> of each. Only its raising on an entry that
  cannot be read is kept; the conversion of the three values to strings, which raises
  for an object carrying a \<open>toString\<close> entry of its own, is not modelled.
\<close>

definition setupLanguageSwitcher :: "env \<Rightarrow> state \<Rightarrow> error option \<times> state" where
  "setupLanguageSwitcher env s =
     (if \<not> lang_dropdown_present env then (None, s)
      else case languages s of
             Arr ls \<Rightarrow>
               if list_all (\<lambda>lang. case get_member lang ''code'' of Inl e \<Rightarrow> False | Inr c \<Rightarrow> True) ls
               then (None, s) else (Some TypeError, s)
           | _ \<Rightarrow> (Some TypeError, s))"

text \<open>\<open>savedLang || browserLang || this.defaultLang\<close>: an empty string is falsy.\<close>

definition initialLang :: "string option \<Rightarrow> string option \<Rightarrow> string \<Rightarrow> string" where
  "initialLang savedLang browserLang dflt =
     (case savedLang of
        Some (c # cs) \<Rightarrow> c # cs
      | _ \<Rightarrow> (case browserLang of Some (c # cs) \<Rightarrow> c # cs | _ \<Rightarrow> dflt))"

definition init_try :: "env \<Rightarrow> manifest fetched \<Rightarrow> network \<Rightarrow> state \<Rightarrow> error option \<times> state" where
  "init_try env manifest net s =
     (case loadLanguages manifest s of
        (Some e, s1) \<Rightarrow> (Some e, s1)
      | (None, s1) \<Rightarrow>
          (case getSavedLanguage s1 of
             Inl e \<Rightarrow> (Some e, s1)
           | Inr savedLang \<Rightarrow>
               (case getBrowserLanguage env s1 of
                  Inl e \<Rightarrow> (Some e, s1)
                | Inr browserLang \<Rightarrow>
                    (case setLanguage net (initialLang savedLang browserLang (defaultLang s1)) s1 of
                       (ok, s2) \<Rightarrow> setupLanguageSwitcher env s2))))"

definition init :: "env \<Rightarrow> manifest fetched \<Rightarrow> network \<Rightarrow> state \<Rightarrow> error option \<times> state" where
  "init env manifest net s =
     (case init_try env manifest net s of
        (None, s') \<Rightarrow> (None, s')
      | (Some e, s') \<Rightarrow> (case setLanguage net (defaultLang s') s' of (ok, s'') \<Rightarrow> (None, s'')))"

text \<open>A session after start-up: \<open>setLanguage\<close> called with one code after another.\<close>

fun run :: "network \<Rightarrow> string list \<Rightarrow> state \<Rightarrow> state" where
  "run net [] s = s"
| "run net (c # cs) s = run net cs (snd (setLanguage net c s))"

section \<open>The registry as the specification reads it\<close>

text \<open>
  The codes of the registry's descriptors, and the direction the registry records for a
  code (that of the first descriptor carrying it).
\<close>

definition descriptor_code :: "jsval \<Rightarrow> string option" where
  "descriptor_code l = (case get_member l ''code'' of Inr (Str c) \<Rightarrow> Some c | _ \<Rightarrow> None)"

definition registry_codes :: "jsval \<Rightarrow> string list" where
  "registry_codes v = (case v of Arr ls \<Rightarrow> List.map_filter descriptor_code ls | _ \<Rightarrow> [])"

definition registry_direction :: "jsval \<Rightarrow> string \<Rightarrow> jsval option" where
  "registry_direction v c =
     (case v of
        Arr ls \<Rightarrow>
          (case find (\<lambda>l. descriptor_code l = Some c) ls of
             None \<Rightarrow> None
           | Some l \<Rightarrow> (case get_member l ''dir'' of Inl e \<Rightarrow> None | Inr d \<Rightarrow> Some d))
      | _ \<Rightarrow> None)"

text \<open>The direction a bundle carries: its \<open>meta.dir\<close>, when \<open>meta\<close> can be read.\<close>

definition bundle_dir :: "jsval \<Rightarrow> jsval option" where
  "bundle_dir bundle =
     (case get_member bundle ''meta'' of
        Inl e \<Rightarrow> None
      | Inr meta \<Rightarrow> (case get_member meta ''dir'' of Inl e \<Rightarrow> None | Inr d \<Rightarrow> Some d))"

text \<open>
  A bundle load fails when the request is rejected, the status is not a success, or
  the body is not JSON. A manifest is unreadable when the request is rejected, or the
  body is not JSON or is the JSON value \<open>null\<close>. Unlike \<open>load_fails\<close>, this says
  nothing of the status of the response, and a JSON body of any other shape, with or
  without a list of languages, is readable.
\<close>

definition load_fails :: "jsval fetched \<Rightarrow> bool" where
  "load_fails r = (case r of Rejected \<Rightarrow> True | Response ok body \<Rightarrow> \<not> ok \<or> body = None)"





text \<open>The active language, when there is one, is a code of the registry.\<close>

definition currentLang_registered :: "state \<Rightarrow> bool" where
  "currentLang_registered s =
     (case currentLang s of
        None \<Rightarrow> True
      | Some c \<Rightarrow> c \<in> set (registry_codes (languages s)))"

section \<open>Example pages\<close>

text \<open>
  Concrete stores, bundles and networks on which the theorems below are exercised.
  \<open>fallback_state\<close> is a fresh manager whose manifest request was rejected.
\<close>

definition empty_storage :: storage where
  "empty_storage = \<lparr>items = Map.empty, access_denied = False, quota_exceeded = False\<rparr>"

definition fallback_state :: state where
  "fallback_state = snd (loadLanguages Rejected (new_I18n empty_storage))"

definition ar_bundle :: jsval where
  "ar_bundle =
     Obj [(''meta'', Obj [(''lang'', Str ''ar''), (''dir'', Str ''rtl'')]),
          (''a'', Obj [(''b'', Obj [(''c'', Str ''X'')])])]"

definition en_bundle :: jsval where
  "en_bundle =
     Obj [(''meta'', Obj [(''lang'', Str ''en''), (''dir'', Str ''ltr'')]),
          (''ticker'', Obj [(''items'', Arr [Str ''Welcome'', Str ''Stay safe''])])]"

definition en_rtl_bundle :: jsval where
  "en_rtl_bundle = Obj [(''meta'', Obj [(''lang'', Str ''en''), (''dir'', Str ''rtl'')])]"

definition fr_bundle :: jsval where
  "fr_bundle = Obj [(''meta'', Obj [(''lang'', Str ''fr''), (''dir'', Str ''ltr'')])]"

definition no_meta_bundle :: jsval where
  "no_meta_bundle = Obj [(''title'', Str ''CiviStories'')]"

text \<open>The site serves \<open>ar.json\<close> and \<open>en.json\<close>; every other request is rejected.\<close>

definition ar_en_network :: network where
  "ar_en_network n c =
     (if c = ''ar'' then Response True (Some ar_bundle)
      else if c = ''en'' then Response True (Some en_bundle)
      else Rejected)"

text \<open>The site serves an \<open>en.json\<close> whose \<open>meta.dir\<close> is \<open>rtl\<close>.\<close>

definition en_rtl_network :: network where
  "en_rtl_network n c = (if c = ''en'' then Response True (Some en_rtl_bundle) else Rejected)"

text \<open>The site serves an \<open>ar.json\<close> without a \<open>meta\<close> entry.\<close>

definition no_meta_network :: network where
  "no_meta_network n c = (if c = ''ar'' then Response True (Some no_meta_bundle) else Rejected)"

text \<open>The site also serves \<open>fr.json\<close>.\<close>

definition fr_network :: network where
  "fr_network n c =
     (if c = ''fr'' then Response True (Some fr_bundle) else ar_en_network n c)"

definition offline_network :: network where
  "offline_network n c = Rejected"

text \<open>A manager that has loaded English from \<open>ar_en_network\<close>.\<close>

definition en_loaded_state :: state where
  "en_loaded_state = snd (setLanguage ar_en_network ''en'' fallback_state)"

text \<open>A manager that has loaded Arabic from \<open>ar_en_network\<close>.\<close>

definition ar_loaded_state :: state where
  "ar_loaded_state = snd (setLanguage ar_en_network ''ar'' fallback_state)"

text \<open>A browser set to British English, on a page with the switcher's dropdown.\<close>

definition en_GB_env :: env where
  "en_GB_env =
     \<lparr>navigator_language = Some ''en-GB'', navigator_userLanguage = None,
      lang_dropdown_present = True\<rparr>"

text \<open>
  A store that remembers \<open>fr\<close> and accepts no further write, and one that
  remembers \<open>fr\<close> and works.
\<close>

definition full_storage_fr :: storage where
  "full_storage_fr =
     \<lparr>items = [''preferred_language'' \<mapsto> ''fr''], access_denied = False, quota_exceeded = True\<rparr>"

definition storage_fr :: storage where
  "storage_fr =
     \<lparr>items = [''preferred_language'' \<mapsto> ''fr''], access_denied = False, quota_exceeded = False\<rparr>"

definition denied_storage :: storage where
  "denied_storage = \<lparr>items = Map.empty, access_denied = True, quota_exceeded = False\<rparr>"

text \<open>Managers whose registry is the fallback list, over these two stores.\<close>

definition full_store_state :: state where
  "full_store_state = snd (loadLanguages Rejected (new_I18n full_storage_fr))"

definition fr_saved_state :: state where
  "fr_saved_state = snd (loadLanguages Rejected (new_I18n storage_fr))"

text \<open>
  A page started with \<open>init\<close>: no manifest, a store that remembers \<open>en\<close>, a
  British English browser, a site serving Arabic and English.
\<close>

definition storage_en :: storage where
  "storage_en =
     \<lparr>items = [''preferred_language'' \<mapsto> ''en''], access_denied = False, quota_exceeded = False\<rparr>"

definition started_state :: state where
  "started_state = snd (init en_GB_env Rejected ar_en_network (new_I18n storage_en))"



section \<open>Facts about the model\<close>

declare setLanguage.simps [simp del]

lemma applyLanguage_None:
  assumes "applyLanguage s = (None, s')"
  shows "\<exists>meta l d. get_member (translations' s) ''meta'' = Inr meta
           \<and> get_member meta ''lang'' = Inr l \<and> get_member meta ''dir'' = Inr d
           \<and> s' = s\<lparr>html_lang := l, html_dir := d, events := events s @ [(currentLang s, d)]\<rparr>"
  using assms
  by (auto simp: applyLanguage_def updateLanguageSwitcher_def split: sum.splits prod.splits option.splits)

lemma applyLanguage_Some:
  assumes "applyLanguage s = (Some e, s')"
  shows "events s' = events s \<and> currentLang s' = currentLang s \<and> translations' s' = translations' s
           \<and> localStorage s' = localStorage s \<and> requests s' = requests s
           \<and> languages s' = languages s \<and> storageKey s' = storageKey s"
  using assms
  by (auto simp: applyLanguage_def updateLanguageSwitcher_def split: sum.splits prod.splits option.splits)

lemma saveLanguage_eq:
  "saveLanguage c s =
     (None, if access_denied (localStorage s) \<or> quota_exceeded (localStorage s) then s
            else s\<lparr>localStorage := (localStorage s)\<lparr>items := (items (localStorage s))(storageKey s \<mapsto> c)\<rparr>\<rparr>)"
  by (simp add: saveLanguage_def localStorage_setItem_def)

lemma setLanguage_try_None:
  assumes "setLanguage_try net c s = (None, s')"
  shows "\<exists>bundle meta l d.
           net (length (requests s)) c = Response True (Some bundle)
           \<and> get_member bundle ''meta'' = Inr meta
           \<and> get_member meta ''lang'' = Inr l \<and> get_member meta ''dir'' = Inr d
           \<and> s' = snd (saveLanguage c
                  (s\<lparr>requests := requests s @ [c], translations' := bundle, currentLang := Some c,
                     html_lang := l, html_dir := d, events := events s @ [(Some c, d)]\<rparr>))"
  using assms
  by (auto simp: setLanguage_try_def Let_def saveLanguage_eq
      split: fetched.splits option.splits prod.splits if_splits dest!: applyLanguage_None)

lemma setLanguage_try_Some:
  assumes "setLanguage_try net c s = (Some e, s')"
  shows "events s' = events s \<and> localStorage s' = localStorage s
           \<and> requests s' = requests s @ [c] \<and> languages s' = languages s
           \<and> storageKey s' = storageKey s
           \<and> (currentLang s' = currentLang s \<or> currentLang s' = Some c)"
  using assms
  by (auto simp: setLanguage_try_def Let_def saveLanguage_eq
      split: fetched.splits option.splits prod.splits if_splits dest!: applyLanguage_Some)

lemma setLanguage_first:
  "setLanguage_try net c s = (None, s') \<Longrightarrow> setLanguage net c s = (True, s')"
  by (simp add: setLanguage.simps)

lemma setLanguage_default_fails:
  "setLanguage_try net c s = (Some e, s') \<Longrightarrow> c = defaultLang s \<Longrightarrow> setLanguage net c s = (False, s')"
  by (simp add: setLanguage.simps setLanguage_try_defaultLang)

lemma setLanguage_falls_back:
  assumes "setLanguage_try net c s = (Some e, s1)" and "c \<noteq> defaultLang s"
  shows "setLanguage net c s =
           (fst (setLanguage_try net (defaultLang s) s1) = None, snd (setLanguage_try net (defaultLang s) s1))"
proof -
  have d1: "defaultLang s1 = defaultLang s"
    using assms(1) by (rule setLanguage_try_defaultLang)
  have step: "setLanguage net c s = setLanguage net (defaultLang s) s1"
    using assms d1 by (simp add: setLanguage.simps [of net c s])
  obtain r s2 where t2: "setLanguage_try net (defaultLang s) s1 = (r, s2)"
    by (cases "setLanguage_try net (defaultLang s) s1")
  have d2: "defaultLang s2 = defaultLang s"
    using setLanguage_try_defaultLang [OF t2] d1 by simp
  show ?thesis
    using t2 d1 d2 by (cases r) (simp_all add: step setLanguage.simps [of net "defaultLang s" s1])
qed

lemma setLanguage_try_requests:
  "setLanguage_try net c s = (r, s') \<Longrightarrow> requests s' = requests s @ [c]"
  by (cases r) (auto dest!: setLanguage_try_None setLanguage_try_Some simp: saveLanguage_eq)

lemma setLanguage_try_None_fields:
  assumes "setLanguage_try net c s = (None, s')"
  shows "currentLang s' = Some c"
    and "\<exists>d. bundle_dir (translations' s') = Some d \<and> events s' = events s @ [(Some c, d)]"
    and "languages s' = languages s"
    and "storageKey s' = storageKey s"
    and "localStorage s' = localStorage (snd (saveLanguage c s))"
  using setLanguage_try_None [OF assms]
  by (auto simp: saveLanguage_eq bundle_dir_def)

lemma isRTL_bundle_dir:
  "bundle_dir (translations' s) = Some d \<Longrightarrow> isRTL s = Inr (d = Str ''rtl'')"
  by (cases "translations' s")
    (auto simp: bundle_dir_def isRTL_def getDirection_def split: sum.splits)

lemma setLanguage_True:
  assumes "setLanguage net c s = (True, s')"
  shows "setLanguage_try net c s = (None, s')
         \<or> (c \<noteq> defaultLang s \<and> (\<exists>e s1. setLanguage_try net c s = (Some e, s1)
               \<and> setLanguage_try net (defaultLang s) s1 = (None, s')))"
proof -
  obtain r s1 where t1: "setLanguage_try net c s = (r, s1)"
    by (cases "setLanguage_try net c s")
  show ?thesis
  proof (cases r)
    case None
    with t1 assms show ?thesis by (simp add: setLanguage_first)
  next
    case (Some e)
    show ?thesis
    proof (cases "c = defaultLang s")
      case True
      with t1 Some assms show ?thesis by (simp add: setLanguage_default_fails)
    next
      case False
      with t1 Some assms setLanguage_falls_back [of net c s e s1]
      show ?thesis by (cases "setLanguage_try net (defaultLang s) s1") auto
    qed
  qed
qed


lemma setLanguage_try_load_fails:
  assumes "load_fails (net (length (requests s)) c)"
  shows "\<exists>e. setLanguage_try net c s = (Some e, s\<lparr>requests := requests s @ [c]\<rparr>)"
  using assms
  by (auto simp: load_fails_def setLanguage_try_def Let_def split: fetched.splits)

lemma setLanguage_True_events:
  assumes "setLanguage net c s = (True, s')"
  shows "\<exists>loaded d. currentLang s' = Some loaded \<and> bundle_dir (translations' s') = Some d
           \<and> events s' = events s @ [(Some loaded, d)]"
proof -
  from setLanguage_True [OF assms] consider
      (first) "setLanguage_try net c s = (None, s')"
    | (fallback) e s1 where "setLanguage_try net c s = (Some e, s1)"
        and "setLanguage_try net (defaultLang s) s1 = (None, s')"
    by blast
  then show ?thesis
  proof cases
    case first
    from setLanguage_try_None_fields(1,2) [OF first] show ?thesis by blast
  next
    case fallback
    from setLanguage_try_Some [OF fallback(1)] have "events s1 = events s" by simp
    with setLanguage_try_None_fields(1,2) [OF fallback(2)] show ?thesis by auto
  qed
qed







lemma setLanguage_try_frame:
  assumes "setLanguage_try net c s = (r, s')"
  shows "languages s' = languages s \<and> defaultLang s' = defaultLang s
       \<and> storageKey s' = storageKey s
       \<and> (currentLang s' = currentLang s \<or> currentLang s' = Some c)"
proof (cases r)
  case None
  with assms setLanguage_try_None_fields [of net c s s'] setLanguage_try_defaultLang [OF assms]
  show ?thesis by simp
next
  case (Some e)
  with assms setLanguage_try_Some [of net c s e s'] setLanguage_try_defaultLang [OF assms]
  show ?thesis by simp
qed

lemma setLanguage_frame:
  assumes "setLanguage net c s = (ok, s')"
  shows "languages s' = languages s \<and> defaultLang s' = defaultLang s
       \<and> storageKey s' = storageKey s
       \<and> (currentLang s' = currentLang s \<or> currentLang s' = Some c
            \<or> currentLang s' = Some (defaultLang s))"
proof -
  obtain r s1 where t1: "setLanguage_try net c s = (r, s1)"
    by (cases "setLanguage_try net c s")
  note f1 = setLanguage_try_frame [OF t1]
  show ?thesis
  proof (cases r)
    case None
    with t1 assms f1 show ?thesis by (auto simp: setLanguage_first)
  next
    case (Some e)
    show ?thesis
    proof (cases "c = defaultLang s")
      case True
      with t1 Some assms f1 show ?thesis by (auto simp: setLanguage_default_fails)
    next
      case False
      obtain r2 s2 where t2: "setLanguage_try net (defaultLang s) s1 = (r2, s2)"
        by (cases "setLanguage_try net (defaultLang s) s1")
      note f2 = setLanguage_try_frame [OF t2]
      from setLanguage_falls_back [of net c s e s1] t1 Some False t2 assms
      have "s' = s2" by simp
      with f1 f2 show ?thesis by auto
    qed
  qed
qed

lemma setLanguage_registered:
  assumes "currentLang_registered s"
    and "c \<in> set (registry_codes (languages s))"
    and "defaultLang s \<in> set (registry_codes (languages s))"
  shows "currentLang_registered (snd (setLanguage net c s))"
  using assms setLanguage_frame [of net c s "fst (setLanguage net c s)" "snd (setLanguage net c s)"]
  by (auto simp: currentLang_registered_def split: option.splits)

lemma run_frame:
  "languages (run net cs s) = languages s \<and> defaultLang (run net cs s) = defaultLang s"
proof (induction cs arbitrary: s)
  case Nil
  show ?case by simp
next
  case (Cons c cs)
  from setLanguage_frame [of net c s "fst (setLanguage net c s)" "snd (setLanguage net c s)"]
  show ?case by (simp add: Cons.IH)
qed

lemma run_registered:
  assumes "currentLang_registered s"
    and "set cs \<subseteq> set (registry_codes (languages s))"
    and "defaultLang s \<in> set (registry_codes (languages s))"
  shows "currentLang_registered (run net cs s)"
  using assms
proof (induction cs arbitrary: s)
  case Nil
  then show ?case by simp
next
  case (Cons c cs)
  let ?s1 = "snd (setLanguage net c s)"
  from setLanguage_frame [of net c s "fst (setLanguage net c s)" ?s1]
  have fr: "languages ?s1 = languages s" "defaultLang ?s1 = defaultLang s" by simp_all
  have "currentLang_registered ?s1"
    using Cons.prems by (intro setLanguage_registered) auto
  then have "currentLang_registered (run net cs ?s1)"
    using Cons.prems fr by (intro Cons.IH) auto
  then show ?case by simp
qed

lemma run_keeps_language:
  "currentLang s \<noteq> None \<Longrightarrow> currentLang (run net cs s) \<noteq> None"
proof (induction cs arbitrary: s)
  case Nil
  then show ?case by simp
next
  case (Cons c cs)
  from setLanguage_frame [of net c s "fst (setLanguage net c s)" "snd (setLanguage net c s)"] Cons.prems
  have "currentLang (snd (setLanguage net c s)) \<noteq> None" by auto
  then show ?case using Cons.IH by simp
qed

lemma find_code_found:
  "find_code ls (Str c) = Inr v \<Longrightarrow> truthy v \<Longrightarrow> c \<in> set (List.map_filter descriptor_code ls)"
proof (induction ls)
  case Nil
  then show ?case by simp
next
  case (Cons l ls)
  from Cons.prems(1) obtain x where x: "get_member l ''code'' = Inr x"
    by (auto split: sum.splits)
  show ?case
  proof (cases "x = Str c")
    case True
    with x have "descriptor_code l = Some c" by (simp add: descriptor_code_def)
    then show ?thesis by (simp add: map_filter_simps)
  next
    case False
    with x Cons.prems have "find_code ls (Str c) = Inr v" by simp
    with Cons.IH Cons.prems(2) show ?thesis by (simp add: map_filter_simps split: option.splits)
  qed
qed

lemma getBrowserLanguage_registered:
  assumes "getBrowserLanguage env s = Inr (Some b)"
  shows "b \<in> set (registry_codes (languages s))"
proof (cases "languages s")
  case (Arr ls)
  with assms show ?thesis
    by (auto simp: getBrowserLanguage_def Let_def registry_codes_def
        split: if_splits option.splits list.splits sum.splits dest: find_code_found)
qed (use assms in \<open>auto simp: getBrowserLanguage_def Let_def split: if_splits option.splits list.splits\<close>)


lemma loadLanguages_frame:
  assumes "loadLanguages manifest s = (r, s1)"
  shows "r = None \<and> currentLang s1 = currentLang s \<and> localStorage s1 = localStorage s
       \<and> storageKey s1 = storageKey s"
  using assms
  by (auto simp: loadLanguages_def loadLanguages_try_def
      split: fetched.splits option.splits manifest.splits prod.splits)

lemma setupLanguageSwitcher_frame: "snd (setupLanguageSwitcher env s) = s"
  by (simp add: setupLanguageSwitcher_def split: jsval.splits)

lemma initialLang_cases:
  "(\<exists>c. savedLang = Some c \<and> c \<noteq> [] \<and> initialLang savedLang browserLang dflt = c)
   \<or> (\<exists>b. browserLang = Some b \<and> initialLang savedLang browserLang dflt = b)
   \<or> initialLang savedLang browserLang dflt = dflt"
  by (auto simp: initialLang_def split: option.splits list.splits)

lemma init_registered:
  assumes i: "init env manifest net s0 = (r, s1)"
    and fresh: "currentLang s0 = None"
    and dflt: "defaultLang s1 \<in> set (registry_codes (languages s1))"
    and saved: "\<forall>c. getSavedLanguage s0 = Inr (Some c) \<longrightarrow>
                  c = [] \<or> c \<in> set (registry_codes (languages s1))"
  shows "currentLang_registered s1"
proof -
  obtain rl sl where l: "loadLanguages manifest s0 = (rl, sl)"
    by (cases "loadLanguages manifest s0")
  note fl = loadLanguages_frame [OF l]
  have sv: "getSavedLanguage sl = getSavedLanguage s0"
    using fl by (simp add: getSavedLanguage_def)
  have "\<exists>x. getSavedLanguage s0 = Inr x"
    by (simp add: getSavedLanguage_def split: sum.splits)
  then obtain savedLang where svd: "getSavedLanguage s0 = Inr savedLang"
    by blast
  have reg_sl: "currentLang_registered sl"
    using fl fresh by (simp add: currentLang_registered_def)
  show ?thesis
  proof (cases "getBrowserLanguage env sl")
    case (Inl e)
    with i l fl sv svd have s1: "s1 = snd (setLanguage net (defaultLang sl) sl)"
      by (auto simp: init_def init_try_def split: prod.splits)
    from setLanguage_frame [of net "defaultLang sl" sl "fst (setLanguage net (defaultLang sl) sl)" s1] s1
    have fr: "languages s1 = languages sl" "defaultLang s1 = defaultLang sl"
      "currentLang s1 = currentLang sl \<or> currentLang s1 = Some (defaultLang sl)"
      by auto
    with dflt fl fresh show ?thesis
      by (auto simp: currentLang_registered_def)
  next
    case (Inr browserLang)
    let ?initial = "initialLang savedLang browserLang (defaultLang sl)"
    obtain ok s2 where sl2: "setLanguage net ?initial sl = (ok, s2)"
      by (cases "setLanguage net ?initial sl")
    note f2 = setLanguage_frame [OF sl2]
    obtain rs where su: "setupLanguageSwitcher env s2 = (rs, s2)"
      using setupLanguageSwitcher_frame [of env s2]
      by (cases "setupLanguageSwitcher env s2") simp
    have s1_cases: "s1 = s2 \<or> s1 = snd (setLanguage net (defaultLang s2) s2)"
      using i l fl sv svd Inr sl2 su
      by (auto simp: init_def init_try_def split: prod.splits option.splits)
    have langs2: "languages s1 = languages s2 \<and> defaultLang s1 = defaultLang s2
        \<and> (currentLang s1 = currentLang s2 \<or> currentLang s1 = Some (defaultLang s2))"
      using s1_cases
        setLanguage_frame [of net "defaultLang s2" s2 "fst (setLanguage net (defaultLang s2) s2)"
          "snd (setLanguage net (defaultLang s2) s2)"]
      by auto
    have codes_eq: "registry_codes (languages s1) = registry_codes (languages sl)"
      using langs2 f2 by simp
    have initial_ok: "?initial \<in> set (registry_codes (languages sl))"
    proof -
      from initialLang_cases [of savedLang browserLang "defaultLang sl"]
      consider (s) c where "savedLang = Some c" "c \<noteq> []" "?initial = c"
        | (b) b where "browserLang = Some b" "?initial = b"
        | (d) "?initial = defaultLang sl"
        by blast
      then show ?thesis
      proof cases
        case s
        with saved svd codes_eq show ?thesis by auto
      next
        case b
        with Inr getBrowserLanguage_registered [of env sl b] show ?thesis by simp
      next
        case d
        with dflt langs2 f2 codes_eq show ?thesis by simp
      qed
    qed
    have cl: "currentLang sl = None"
      using fl fresh by simp
    have c2: "currentLang s2 = None \<or> currentLang s2 = Some ?initial
        \<or> currentLang s2 = Some (defaultLang sl)"
      using f2 cl by auto
    have d2: "defaultLang s2 = defaultLang sl"
      using f2 by simp
    have c1: "currentLang s1 = None \<or> currentLang s1 = Some ?initial
        \<or> currentLang s1 = Some (defaultLang sl)"
      using langs2 c2 d2 by auto
    have d1: "defaultLang sl \<in> set (registry_codes (languages sl))"
      using dflt langs2 d2 codes_eq by simp
    from c1 show ?thesis
    proof (elim disjE)
      assume "currentLang s1 = None"
      then show ?thesis by (simp add: currentLang_registered_def)
    next
      assume "currentLang s1 = Some ?initial"
      with initial_ok codes_eq show ?thesis by (simp add: currentLang_registered_def)
    next
      assume "currentLang s1 = Some (defaultLang sl)"
      with d1 codes_eq show ?thesis by (simp add: currentLang_registered_def)
    qed
  qed
qed


lemma setLanguage_try_loaded:
  assumes "net (length (requests s)) c = Response True (Some bundle)"
    and "setLanguage_try net c s = (r, s')"
  shows "currentLang s' = Some c \<and> translations' s' = bundle"
proof (cases r)
  case None
  with assms setLanguage_try_None [of net c s s'] show ?thesis
    by (auto simp: saveLanguage_eq)
next
  case (Some e)
  with assms show ?thesis
    by (auto simp: setLanguage_try_def Let_def saveLanguage_eq
        split: prod.splits option.splits dest!: applyLanguage_Some)
qed

section \<open>Claims\<close>

subsection \<open>C1: language and direction after a successful \<open>setLanguage\<close>\<close>

text \<open>
  Claim C1 says that after a successful \<open>setLanguage(c)\<close>, \<open>getCurrentLang()\<close> is
  \<open>c\<close> and \<open>isRTL()\<close> agrees with the direction the registry records for \<open>c\<close>.
  The registry is not consulted: \<open>isRTL\<close> reads \<open>meta.dir\<close> of the active bundle.
  Counterexample to C1: the registry lists \<open>en\<close> as \<open>ltr\<close>, the bundle served for
  \<open>en\<close> says \<open>rtl\<close>; \<open>setLanguage('en')\<close> succeeds on its first attempt and
  \<open>isRTL()\<close> is true.
\<close>

theorem isRTL_ignores_registry_direction:
  "fst (setLanguage en_rtl_network ''en'' fallback_state) = True
   \<and> fst (setLanguage_try en_rtl_network ''en'' fallback_state) = None
   \<and> ''en'' \<in> set (registry_codes (languages (snd (setLanguage en_rtl_network ''en'' fallback_state))))
   \<and> getCurrentLang (snd (setLanguage en_rtl_network ''en'' fallback_state)) = Some ''en''
   \<and> registry_direction (languages (snd (setLanguage en_rtl_network ''en'' fallback_state))) ''en''
       = Some (Str ''ltr'')
   \<and> isRTL (snd (setLanguage en_rtl_network ''en'' fallback_state)) = Inr True"
  by code_simp

text \<open>
  Claim C1, amended: if \<open>setLanguage(c)\<close> returns true, then \<open>getCurrentLang()\<close> is
  the code whose bundle was loaded, which is \<open>c\<close> when the first attempt succeeded
  and \<open>defaultLang\<close> after a fallback; the active bundle is the one the site served
  for that code (on the first request of the call, or on the second after a fallback);
  and \<open>isRTL()\<close> is true exactly when \<open>meta.dir\<close> of that bundle is \<open>rtl\<close>.
\<close>

theorem setLanguage_success_lang_and_direction:
  assumes "setLanguage net c s = (True, s')"
  shows "\<exists>loaded bundle d.
           loaded = (if fst (setLanguage_try net c s) = None then c else defaultLang s)
           \<and> getCurrentLang s' = Some loaded
           \<and> net (if fst (setLanguage_try net c s) = None then length (requests s)
                   else Suc (length (requests s))) loaded = Response True (Some bundle)
           \<and> translations' s' = bundle
           \<and> bundle_dir bundle = Some d
           \<and> isRTL s' = Inr (d = Str ''rtl'')"
proof -
  from setLanguage_True [OF assms] consider
      (first) "setLanguage_try net c s = (None, s')"
    | (fallback) e s1 where "setLanguage_try net c s = (Some e, s1)"
        and "setLanguage_try net (defaultLang s) s1 = (None, s')"
    by blast
  then show ?thesis
  proof cases
    case first
    from setLanguage_try_None [OF first] obtain bdl
      where served: "net (length (requests s)) c = Response True (Some bdl)"
      by blast
    from setLanguage_try_loaded [OF served first]
    have cur: "currentLang s' = Some c" and act: "translations' s' = bdl"
      by simp_all
    from setLanguage_try_None_fields(2) [OF first] act obtain d
      where d: "bundle_dir bdl = Some d"
      by auto
    from isRTL_bundle_dir [of s' d] act d have "isRTL s' = Inr (d = Str ''rtl'')"
      by simp
    with first served cur act d show ?thesis
      by (simp add: getCurrentLang_def)
  next
    case fallback
    have len: "length (requests s1) = Suc (length (requests s))"
      using setLanguage_try_requests [OF fallback(1)] by simp
    from setLanguage_try_None [OF fallback(2)] len obtain bdl
      where served: "net (Suc (length (requests s))) (defaultLang s) = Response True (Some bdl)"
      by auto
    then have served1: "net (length (requests s1)) (defaultLang s) = Response True (Some bdl)"
      using len by simp
    from setLanguage_try_loaded [OF served1 fallback(2)]
    have cur: "currentLang s' = Some (defaultLang s)" and act: "translations' s' = bdl"
      by simp_all
    from setLanguage_try_None_fields(2) [OF fallback(2)] act obtain d
      where d: "bundle_dir bdl = Some d"
      by auto
    from isRTL_bundle_dir [of s' d] act d have "isRTL s' = Inr (d = Str ''rtl'')"
      by simp
    with fallback(1) served cur act d show ?thesis
      by (simp add: getCurrentLang_def)
  qed
qed

theorem setLanguage_success_lang_and_direction_witness:
  "setLanguage ar_en_network ''fr'' en_loaded_state
     = (True, snd (setLanguage ar_en_network ''fr'' en_loaded_state))
   \<and> fst (setLanguage_try ar_en_network ''fr'' en_loaded_state) = Some NetworkError
   \<and> defaultLang en_loaded_state = ''ar''
   \<and> ar_en_network (Suc (length (requests en_loaded_state))) ''ar'' = Response True (Some ar_bundle)
   \<and> getCurrentLang (snd (setLanguage ar_en_network ''fr'' en_loaded_state)) = Some ''ar''
   \<and> translations' (snd (setLanguage ar_en_network ''fr'' en_loaded_state)) = ar_bundle
   \<and> bundle_dir ar_bundle = Some (Str ''rtl'')
   \<and> isRTL (snd (setLanguage ar_en_network ''fr'' en_loaded_state)) = Inr True"
proof -
  have ok: "fst (setLanguage ar_en_network ''fr'' en_loaded_state) = True"
    by code_simp
  then have run: "setLanguage ar_en_network ''fr'' en_loaded_state
      = (True, snd (setLanguage ar_en_network ''fr'' en_loaded_state))"
    by (simp add: prod_eq_iff)
  have facts: "fst (setLanguage_try ar_en_network ''fr'' en_loaded_state) = Some NetworkError"
    "defaultLang en_loaded_state = ''ar''"
    "bundle_dir ar_bundle = Some (Str ''rtl'')"
    by code_simp+
  have served: "ar_en_network (Suc (length (requests en_loaded_state))) ''ar''
      = Response True (Some ar_bundle)"
    by (simp add: ar_en_network_def)
  from setLanguage_success_lang_and_direction [OF run] run facts served show ?thesis
    by auto
qed

subsection \<open>C2: a single fallback to the default language\<close>

text \<open>
  Claim C2: when the attempt for a code \<open>c\<close> other than \<open>defaultLang\<close> fails,
  \<open>setLanguage(c)\<close> issues exactly one further request, for \<open>defaultLang\<close>, and
  when that attempt succeeds the call returns true with
  \<open>getCurrentLang() = defaultLang\<close>. The active language is \<open>defaultLang\<close> as
  soon as the default bundle is fetched and parsed, whatever \<open>applyLanguage\<close> then
  does.
\<close>

theorem setLanguage_single_fallback:
  assumes "c \<noteq> defaultLang s" and "setLanguage_try net c s = (Some e, s1)"
  shows "requests (snd (setLanguage net c s)) = requests s @ [c, defaultLang s]
       \<and> (fst (setLanguage_try net (defaultLang s) s1) = None \<longrightarrow>
            fst (setLanguage net c s) = True
            \<and> getCurrentLang (snd (setLanguage net c s)) = Some (defaultLang s))
       \<and> ((\<exists>bundle. net (length (requests s1)) (defaultLang s) = Response True (Some bundle)) \<longrightarrow>
            getCurrentLang (snd (setLanguage net c s)) = Some (defaultLang s))"
proof -
  obtain r s2 where t2: "setLanguage_try net (defaultLang s) s1 = (r, s2)"
    by (cases "setLanguage_try net (defaultLang s) s1")
  have res: "setLanguage net c s = (r = None, s2)"
    using setLanguage_falls_back [OF assms(2) assms(1)] t2 by simp
  have "requests s1 = requests s @ [c]"
    using assms(2) by (rule setLanguage_try_requests)
  moreover have "requests s2 = requests s1 @ [defaultLang s]"
    using t2 by (rule setLanguage_try_requests)
  ultimately have reqs: "requests s2 = requests s @ [c, defaultLang s]"
    by simp
  have finished: "r = None \<longrightarrow> currentLang s2 = Some (defaultLang s)"
    using t2 by (auto dest: setLanguage_try_None_fields(1))
  have loaded: "(\<exists>bundle. net (length (requests s1)) (defaultLang s) = Response True (Some bundle)) \<longrightarrow>
      currentLang s2 = Some (defaultLang s)"
    using t2 by (auto dest: setLanguage_try_loaded)
  from res reqs t2 finished loaded show ?thesis
    by (simp add: getCurrentLang_def)
qed

theorem setLanguage_single_fallback_witness:
  "''fr'' \<noteq> defaultLang fallback_state
   \<and> fst (setLanguage_try ar_en_network ''fr'' fallback_state) = Some NetworkError
   \<and> requests (snd (setLanguage ar_en_network ''fr'' fallback_state)) = [''fr'', ''ar'']
   \<and> fst (setLanguage ar_en_network ''fr'' fallback_state) = True
   \<and> getCurrentLang (snd (setLanguage ar_en_network ''fr'' fallback_state)) = Some ''ar''"
proof -
  have d: "defaultLang fallback_state = ''ar''" and r: "requests fallback_state = []"
    by code_simp+
  have ne: "''fr'' \<noteq> defaultLang fallback_state"
    by (simp add: d)
  have f1: "fst (setLanguage_try ar_en_network ''fr'' fallback_state) = Some NetworkError"
    by code_simp
  then have t1: "setLanguage_try ar_en_network ''fr'' fallback_state
      = (Some NetworkError, snd (setLanguage_try ar_en_network ''fr'' fallback_state))"
    by (simp add: prod_eq_iff)
  have t2: "fst (setLanguage_try ar_en_network (defaultLang fallback_state)
      (snd (setLanguage_try ar_en_network ''fr'' fallback_state))) = None"
    by code_simp
  from setLanguage_single_fallback [OF ne t1] f1 t2 show ?thesis
    by (simp add: d r)
qed

subsection \<open>C3: a failing default language\<close>

text \<open>
  Claim C3 says that a failing \<open>setLanguage(defaultLang)\<close> leaves \<open>currentLang\<close>
  and the active bundle as they were. The two assignments precede \<open>applyLanguage\<close>,
  so a failure raised there comes after them.
  Counterexample to C3: English is active, and the \<open>ar.json\<close> served has no
  \<open>meta\<close> entry. \<open>setLanguage('ar')\<close> returns false, and afterwards \<open>currentLang\<close>
  is \<open>ar\<close> and the active bundle is the one without \<open>meta\<close>.
\<close>

theorem setLanguage_default_apply_failure_changes_state:
  "defaultLang en_loaded_state = ''ar''
   \<and> getCurrentLang en_loaded_state = Some ''en''
   \<and> translations' en_loaded_state = en_bundle
   \<and> fst (setLanguage no_meta_network ''ar'' en_loaded_state) = False
   \<and> getCurrentLang (snd (setLanguage no_meta_network ''ar'' en_loaded_state)) = Some ''ar''
   \<and> translations' (snd (setLanguage no_meta_network ''ar'' en_loaded_state)) = no_meta_bundle"
  by code_simp

text \<open>
  Claim C3, amended: if \<open>setLanguage(defaultLang)\<close> fails because the bundle cannot
  be loaded (the request is rejected, the status is not a success, or the body is not
  JSON), it returns false and leaves \<open>currentLang\<close> and the active bundle unchanged,
  whatever the prior state; only the request is added to the log.
\<close>

theorem setLanguage_default_load_failure_keeps_state:
  assumes "load_fails (net (length (requests s)) (defaultLang s))"
  shows "setLanguage net (defaultLang s) s = (False, s\<lparr>requests := requests s @ [defaultLang s]\<rparr>)
       \<and> getCurrentLang (snd (setLanguage net (defaultLang s) s)) = getCurrentLang s
       \<and> translations' (snd (setLanguage net (defaultLang s) s)) = translations' s"
proof -
  obtain e where
    "setLanguage_try net (defaultLang s) s = (Some e, s\<lparr>requests := requests s @ [defaultLang s]\<rparr>)"
    using setLanguage_try_load_fails [of net s "defaultLang s"] assms by blast
  then have "setLanguage net (defaultLang s) s = (False, s\<lparr>requests := requests s @ [defaultLang s]\<rparr>)"
    by (rule setLanguage_default_fails) simp
  then show ?thesis
    by (simp add: getCurrentLang_def)
qed

theorem setLanguage_default_load_failure_keeps_state_witness:
  "load_fails (offline_network (length (requests en_loaded_state)) (defaultLang en_loaded_state))
   \<and> fst (setLanguage offline_network (defaultLang en_loaded_state) en_loaded_state) = False
   \<and> getCurrentLang (snd (setLanguage offline_network (defaultLang en_loaded_state) en_loaded_state))
       = Some ''en''
   \<and> translations' (snd (setLanguage offline_network (defaultLang en_loaded_state) en_loaded_state))
       = en_bundle"
proof -
  have h: "load_fails (offline_network (length (requests en_loaded_state)) (defaultLang en_loaded_state))"
    by (simp add: load_fails_def offline_network_def)
  have before: "getCurrentLang en_loaded_state = Some ''en''" "translations' en_loaded_state = en_bundle"
    by code_simp+
  from setLanguage_default_load_failure_keeps_state [of offline_network en_loaded_state, OF h] h before
  show ?thesis
    by (simp add: getCurrentLang_def)
qed

subsection \<open>C4: lookup by dotted key\<close>

text \<open>
  Claim C4: \<open>t\<close> (and its alias \<open>get\<close>) returns the value at the end of the
  dotted path and, when a segment is missing from the bundle, the key itself. The loop
  tests a segment with \<open>k in value\<close>, which also holds for every property the value
  inherits from its prototype. On the bundle \<open>{a: {b: {c: 'X'}}, meta: ...}\<close> the two
  lookups of the specification come out as claimed, but \<open>a.constructor\<close>, whose second
  segment is not in the bundle, yields the native function \<open>Object\<close> instead of the
  key, \<open>toString\<close> yields \<open>Object.prototype.toString\<close>, and
  \<open>__proto__.__proto__\<close> yields \<open>null\<close>.
\<close>

theorem t_returns_inherited_property:
  "translations' ar_loaded_state = ar_bundle
   \<and> t ar_loaded_state ''a.b.c'' = Str ''X''
   \<and> t ar_loaded_state ''a.z'' = Str ''a.z''
   \<and> t ar_loaded_state ''a.constructor'' = NativeFunction ''Object''
   \<and> get ar_loaded_state ''a.constructor'' \<noteq> Str ''a.constructor''
   \<and> get ar_loaded_state ''toString'' = NativeFunction ''Object.prototype.toString''
   \<and> get ar_loaded_state ''__proto__.__proto__'' = Null"
  by code_simp

subsection \<open>C5: the fallback registry\<close>




subsection \<open>C6: the active language and the registry\<close>

text \<open>
  Claim C6 says that once initialization has succeeded, \<open>currentLang\<close> is always a
  code of the registry. \<open>setLanguage\<close> accepts every code whose bundle loads and
  never looks at the registry; only the browser's language is checked against it.
  Counterexample to C6: the manifest request is rejected, so the registry is the
  fallback list \<open>ar\<close>, \<open>en\<close>; the store remembers \<open>fr\<close> and the site serves
  \<open>fr.json\<close>. \<open>init\<close> completes without an exception, its \<open>setLanguage('fr')\<close>
  returns true, and the active language is \<open>fr\<close>.
\<close>

theorem init_activates_unregistered_saved_language:
  "fst (init_try en_GB_env Rejected fr_network (new_I18n storage_fr)) = None
   \<and> fst (setLanguage fr_network ''fr'' (snd (loadLanguages Rejected (new_I18n storage_fr)))) = True
   \<and> getCurrentLang (snd (init en_GB_env Rejected fr_network (new_I18n storage_fr))) = Some ''fr''
   \<and> registry_codes (getLanguages (snd (init en_GB_env Rejected fr_network (new_I18n storage_fr))))
       = [''ar'', ''en'']"
  by code_simp

text \<open>
  Claim C6, amended: provided \<open>defaultLang\<close> is a code of the registry, the saved
  preference is absent, empty or a code of the registry, and \<open>setLanguage\<close> is only
  called with codes of the registry, then once \<open>init\<close> on a fresh manager has left a
  language active, \<open>currentLang\<close> is a code of the registry after every later
  \<open>setLanguage\<close> call.
\<close>

theorem currentLang_stays_in_registry:
  assumes "init env manifest net (new_I18n st) = (r, s1)"
    and "getCurrentLang s1 \<noteq> None"
    and "defaultLang s1 \<in> set (registry_codes (getLanguages s1))"
    and "\<forall>c. getSavedLanguage (new_I18n st) = Inr (Some c) \<longrightarrow>
           c = [] \<or> c \<in> set (registry_codes (getLanguages s1))"
    and "set cs \<subseteq> set (registry_codes (getLanguages s1))"
  shows "\<exists>c. getCurrentLang (run net cs s1) = Some c
           \<and> c \<in> set (registry_codes (getLanguages (run net cs s1)))"
proof -
  have "currentLang_registered s1"
    using assms(1,3,4) by (intro init_registered [of env manifest net "new_I18n st" r s1])
      (simp_all add: new_I18n_def getLanguages_def)
  then have "currentLang_registered (run net cs s1)"
    using assms(3,5) by (intro run_registered) (simp_all add: getLanguages_def)
  moreover have "currentLang (run net cs s1) \<noteq> None"
    using assms(2) by (intro run_keeps_language) (simp add: getCurrentLang_def)
  ultimately show ?thesis
    by (auto simp: currentLang_registered_def getCurrentLang_def getLanguages_def split: option.splits)
qed

theorem currentLang_stays_in_registry_witness:
  "fst (init en_GB_env Rejected ar_en_network (new_I18n storage_en)) = None
   \<and> getCurrentLang started_state = Some ''en''
   \<and> defaultLang started_state = ''ar''
   \<and> registry_codes (getLanguages started_state) = [''ar'', ''en'']
   \<and> getSavedLanguage (new_I18n storage_en) = Inr (Some ''en'')
   \<and> getCurrentLang (run ar_en_network [''ar'', ''en'', ''ar''] started_state) = Some ''ar''
   \<and> registry_codes (getLanguages (run ar_en_network [''ar'', ''en'', ''ar''] started_state))
       = [''ar'', ''en'']"
proof -
  have "fst (init en_GB_env Rejected ar_en_network (new_I18n storage_en)) = None"
    by code_simp
  then have i: "init en_GB_env Rejected ar_en_network (new_I18n storage_en) = (None, started_state)"
    by (simp add: started_state_def prod_eq_iff)
  have facts: "getCurrentLang started_state = Some ''en''"
    "defaultLang started_state = ''ar''"
    "registry_codes (getLanguages started_state) = [''ar'', ''en'']"
    "getSavedLanguage (new_I18n storage_en) = Inr (Some ''en'')"
    "getCurrentLang (run ar_en_network [''ar'', ''en'', ''ar''] started_state) = Some ''ar''"
    "registry_codes (getLanguages (run ar_en_network [''ar'', ''en'', ''ar''] started_state))
       = [''ar'', ''en'']"
    by code_simp+
  have "\<exists>c. getCurrentLang (run ar_en_network [''ar'', ''en'', ''ar''] started_state) = Some c
      \<and> c \<in> set (registry_codes (getLanguages (run ar_en_network [''ar'', ''en'', ''ar''] started_state)))"
    using i facts(1-4)
    by (intro currentLang_stays_in_registry [of en_GB_env Rejected ar_en_network storage_en None])
      simp_all
  with i facts show ?thesis
    by simp
qed

subsection \<open>C7: the browser's language\<close>



subsection \<open>C8: one notification per successful \<open>setLanguage\<close>\<close>

text \<open>
  Claim C8: a call of \<open>setLanguage\<close> that returns true appends exactly one
  \<open>languageChanged\<close> event to those dispatched before, and its detail carries the new
  \<open>currentLang\<close> and the \<open>meta.dir\<close> of the new active bundle. This holds for a
  success reached by fallback too, since a failed attempt dispatches nothing.
\<close>

theorem setLanguage_dispatches_one_event:
  assumes "setLanguage net c s = (True, s')"
  shows "\<exists>d. bundle_dir (translations' s') = Some d
           \<and> events s' = events s @ [(getCurrentLang s', d)]"
  using setLanguage_True_events [OF assms] by (auto simp: getCurrentLang_def)

theorem setLanguage_dispatches_one_event_witness:
  "fst (setLanguage ar_en_network ''fr'' en_loaded_state) = True
   \<and> events en_loaded_state = [(Some ''en'', Str ''ltr'')]
   \<and> getCurrentLang (snd (setLanguage ar_en_network ''fr'' en_loaded_state)) = Some ''ar''
   \<and> bundle_dir (translations' (snd (setLanguage ar_en_network ''fr'' en_loaded_state))) = Some (Str ''rtl'')
   \<and> events (snd (setLanguage ar_en_network ''fr'' en_loaded_state))
       = [(Some ''en'', Str ''ltr''), (Some ''ar'', Str ''rtl'')]"
proof -
  have ok: "fst (setLanguage ar_en_network ''fr'' en_loaded_state) = True"
    by code_simp
  then have run: "setLanguage ar_en_network ''fr'' en_loaded_state
      = (True, snd (setLanguage ar_en_network ''fr'' en_loaded_state))"
    by (simp add: prod_eq_iff)
  have facts: "events en_loaded_state = [(Some ''en'', Str ''ltr'')]"
    "getCurrentLang (snd (setLanguage ar_en_network ''fr'' en_loaded_state)) = Some ''ar''"
    "bundle_dir (translations' (snd (setLanguage ar_en_network ''fr'' en_loaded_state))) = Some (Str ''rtl'')"
    by code_simp+
  from setLanguage_dispatches_one_event [OF run] ok facts show ?thesis
    by simp
qed

subsection \<open>C9: the preference store never raises\<close>

text \<open>
  Claim C9: \<open>getSavedLanguage\<close> always returns, with the stored string or \<open>null\<close>,
  and with \<open>null\<close> when the store cannot be read; \<open>saveLanguage\<close> always completes,
  and leaves everything as it was when the store cannot be written.
\<close>

theorem preference_store_never_raises:
  "getSavedLanguage s =
     Inr (if access_denied (localStorage s) then None else items (localStorage s) (storageKey s))
   \<and> fst (saveLanguage langCode s) = None
   \<and> snd (saveLanguage langCode s) =
       (if access_denied (localStorage s) \<or> quota_exceeded (localStorage s) then s
        else s\<lparr>localStorage :=
                 (localStorage s)\<lparr>items := (items (localStorage s))(storageKey s \<mapsto> langCode)\<rparr>\<rparr>)"
  by (simp add: getSavedLanguage_def localStorage_getItem_def saveLanguage_eq)

theorem preference_store_never_raises_witness:
  "getSavedLanguage (new_I18n denied_storage) = Inr None
   \<and> fst (saveLanguage ''en'' (new_I18n denied_storage)) = None
   \<and> snd (saveLanguage ''en'' (new_I18n denied_storage)) = new_I18n denied_storage
   \<and> getSavedLanguage (new_I18n storage_fr) = Inr (Some ''fr'')
   \<and> getSavedLanguage (snd (saveLanguage ''en'' (new_I18n storage_fr))) = Inr (Some ''en'')"
proof -
  have denied: "access_denied (localStorage (new_I18n denied_storage)) = True"
    by code_simp
  have facts: "getSavedLanguage (new_I18n storage_fr) = Inr (Some ''fr'')"
    "getSavedLanguage (snd (saveLanguage ''en'' (new_I18n storage_fr))) = Inr (Some ''en'')"
    by code_simp+
  from preference_store_never_raises [of "new_I18n denied_storage" "''en''"] denied facts
  show ?thesis
    by simp
qed

subsection \<open>C10: what a successful \<open>setLanguage\<close> saves\<close>

text \<open>
  Claim C10 says that every successful \<open>setLanguage\<close> leaves the loaded language in
  the preference store, so that a fallback overwrites an earlier preference with
  \<open>defaultLang\<close>. \<open>saveLanguage\<close> swallows a failed write.
  Counterexample to C10: the store remembers \<open>fr\<close> and accepts no further write;
  \<open>setLanguage('fr')\<close> falls back to \<open>ar\<close> and returns true, and the store still
  remembers \<open>fr\<close>.
\<close>

theorem fallback_keeps_old_preference_when_store_full:
  "getSavedLanguage full_store_state = Inr (Some ''fr'')
   \<and> defaultLang full_store_state = ''ar''
   \<and> fst (setLanguage_try ar_en_network ''fr'' full_store_state) = Some NetworkError
   \<and> fst (setLanguage ar_en_network ''fr'' full_store_state) = True
   \<and> getCurrentLang (snd (setLanguage ar_en_network ''fr'' full_store_state)) = Some ''ar''
   \<and> getSavedLanguage (snd (setLanguage ar_en_network ''fr'' full_store_state)) = Inr (Some ''fr'')"
  by code_simp

text \<open>
  Claim C10, amended: after a call of \<open>setLanguage(c)\<close> that returns true, the
  language handed to the preference store is the one that was loaded, \<open>c\<close> when the
  first attempt succeeded and \<open>defaultLang\<close> after a fallback: when the store accepts
  the write, the saved preference is that language, whatever it was before; when the
  store cannot be written, it is left as it was.
\<close>

theorem setLanguage_saves_loaded_language:
  assumes "setLanguage net c s = (True, s')"
  shows "\<exists>loaded. getCurrentLang s' = Some loaded
           \<and> loaded = (if fst (setLanguage_try net c s) = None then c else defaultLang s)
           \<and> (if access_denied (localStorage s) \<or> quota_exceeded (localStorage s)
                then localStorage s' = localStorage s
                else localStorage s' =
                       (localStorage s)\<lparr>items := (items (localStorage s))(storageKey s \<mapsto> loaded)\<rparr>
                     \<and> getSavedLanguage s' = Inr (Some loaded))"
proof -
  have saved: "localStorage t' = localStorage (snd (saveLanguage l t)) \<Longrightarrow> storageKey t' = storageKey t \<Longrightarrow>
      (if access_denied (localStorage t) \<or> quota_exceeded (localStorage t)
       then localStorage t' = localStorage t
       else localStorage t' = (localStorage t)\<lparr>items := (items (localStorage t))(storageKey t \<mapsto> l)\<rparr>
            \<and> getSavedLanguage t' = Inr (Some l))" for t t' l
    by (simp add: saveLanguage_eq getSavedLanguage_def localStorage_getItem_def)
  from setLanguage_True [OF assms] consider
      (first) "setLanguage_try net c s = (None, s')"
    | (fallback) e s1 where "setLanguage_try net c s = (Some e, s1)"
        and "setLanguage_try net (defaultLang s) s1 = (None, s')"
    by blast
  then show ?thesis
  proof cases
    case first
    note f = setLanguage_try_None_fields [OF first]
    from saved [OF f(5) f(4)] f(1) first show ?thesis
      by (simp add: getCurrentLang_def)
  next
    case fallback
    note f1 = setLanguage_try_Some [OF fallback(1)]
    note f2 = setLanguage_try_None_fields [OF fallback(2)]
    have "localStorage s' = localStorage (snd (saveLanguage (defaultLang s) s))"
      using f2(5) f1 by (simp add: saveLanguage_eq)
    moreover have "storageKey s' = storageKey s"
      using f2(4) f1 by simp
    ultimately show ?thesis
      using saved [of s' "defaultLang s" s] f2(1) fallback(1)
      by (simp add: getCurrentLang_def)
  qed
qed

theorem setLanguage_saves_loaded_language_witness:
  "fst (setLanguage ar_en_network ''fr'' fr_saved_state) = True
   \<and> fst (setLanguage_try ar_en_network ''fr'' fr_saved_state) = Some NetworkError
   \<and> getSavedLanguage fr_saved_state = Inr (Some ''fr'')
   \<and> getCurrentLang (snd (setLanguage ar_en_network ''fr'' fr_saved_state)) = Some ''ar''
   \<and> getSavedLanguage (snd (setLanguage ar_en_network ''fr'' fr_saved_state)) = Inr (Some ''ar'')"
proof -
  have ok: "fst (setLanguage ar_en_network ''fr'' fr_saved_state) = True"
    by code_simp
  then have run: "setLanguage ar_en_network ''fr'' fr_saved_state
      = (True, snd (setLanguage ar_en_network ''fr'' fr_saved_state))"
    by (simp add: prod_eq_iff)
  have facts: "fst (setLanguage_try ar_en_network ''fr'' fr_saved_state) = Some NetworkError"
    "getSavedLanguage fr_saved_state = Inr (Some ''fr'')"
    "defaultLang fr_saved_state = ''ar''"
    "access_denied (localStorage fr_saved_state) = False"
    "quota_exceeded (localStorage fr_saved_state) = False"
    by code_simp+
  from setLanguage_saves_loaded_language [OF run] ok facts show ?thesis
    by simp
qed

end
